theory Spec2Isabelle
  imports Complex_Main "HOL-Library.Sublist"
begin

section \<open>The Howl sound group of angular-howler\<close>

text \<open>
  This theory embeds the playback engine of \<^verbatim>\<open>src/module/howler/class/howl.ts\<close>
  (class \<^verbatim>\<open>Howl\<close>), together with the parts of \<^verbatim>\<open>Sound\<close>, \<^verbatim>\<open>SoundConfig\<close> and
  \<^verbatim>\<open>Howler\<close> it uses.

  Reading conventions.  The file is a port in progress: the members of the class are
  written both in the old spelling (\<^verbatim>\<open>self._sounds\<close>, \<^verbatim>\<open>sound._paused\<close>, \<^verbatim>\<open>self._queue\<close>,
  \<^verbatim>\<open>self._loadQueue\<close>, \<^verbatim>\<open>self._emit\<close>) and in the new one (\<^verbatim>\<open>this._soundArray\<close>,
  \<^verbatim>\<open>sound.config.paused\<close>, \<^verbatim>\<open>this.queue\<close>, \<^verbatim>\<open>this.loadQueue\<close>, \<^verbatim>\<open>this.emit\<close>).  Both spellings
  denote the same member here, and \<^verbatim>\<open>self\<close> and \<^verbatim>\<open>this\<close> both denote the group, also in
  the methods that use \<^verbatim>\<open>self\<close> without declaring it (\<^verbatim>\<open>_clearTimer\<close>, \<^verbatim>\<open>_inactiveSound\<close>,
  \<^verbatim>\<open>_ended\<close>).  A member \<^verbatim>\<open>_x\<close> of a Sound is the field \<open>s_x\<close>, a member
  \<^verbatim>\<open>_x\<close> of the Howl is the field \<open>h_x\<close>, a member of the Howler singleton is \<open>g_x\<close>.

  JavaScript objects are references.  A Sound lives in a store (\<open>h_heap\<close>, from
  addresses to sounds) and the array \<^verbatim>\<open>_sounds\<close> holds addresses, so that a closure that
  captured a sound (an end timer, a play waiting for the backend) still reaches it after
  \<^verbatim>\<open>_drain\<close> has spliced the array.

  Numbers are exact rationals; booleans read by truthiness (\<^verbatim>\<open>undefined\<close> is \<open>False\<close>);
  \<^verbatim>\<open>null\<close> and \<^verbatim>\<open>undefined\<close> are \<open>None\<close>.  Sound ids are natural numbers: an id is an
  array length (\<^verbatim>\<open>register\<close>).
\<close>

subsection \<open>Data\<close>

text \<open>One entry of the sprite table: \<^verbatim>\<open>[offset, duration, loop]\<close>, in milliseconds.\<close>

type_synonym sprite_def = "rat \<times> rat \<times> bool"

text \<open>\<^verbatim>\<open>SoundConfig\<close>: the parameter bag a Sound is built from and reset to.\<close>

record sound_config =
  c_muted :: bool
  c_loop :: bool
  c_volume :: rat
  c_rate :: rat
  c_seek :: rat
  c_rateSeek :: rat
  c_paused :: bool
  c_ended :: bool
  c_sprite :: "string option"
  c_format :: "string option"

text \<open>
  What \<^verbatim>\<open>node.play()\<close> of an HTML5 audio element does is the browser's choice: it throws,
  or returns a promise, or returns nothing (old browsers); \<open>po_paused\<close> is the value of
  \<^verbatim>\<open>node.paused\<close> right after the call.
\<close>

datatype play_kind = PlayThrows | PlayPromise | PlayNoPromise

datatype duration = NaN | Infinity | Finite rat

record node =
  n_bufferSource :: bool
  n_gain :: rat
  n_paused :: bool
  n_ended :: bool
  n_currentTime :: rat
  n_readyState :: nat
  n_duration :: duration
  n_silence :: bool
  n_muted :: bool
  n_volume :: rat
  n_playbackRate :: rat
  n_unlocked :: bool
  n_play :: play_kind
  n_pausedAfterPlay :: bool

text \<open>
  The closure of a running fade (\<^verbatim>\<open>_startFadeInterval\<close>): the captured arguments and
  the two variables the ticks update.
\<close>

record fade_interval =
  f_from :: rat
  f_to :: rat
  f_len :: rat
  f_isGroup :: bool
  f_vol :: rat
  f_lastTick :: rat
  f_stepLen :: rat

record sound =
  s_id :: nat
  s_muted :: bool
  s_loop :: bool
  s_volume :: rat
  s_rate :: rat
  s_seek :: rat
  s_rateSeek :: rat
  s_paused :: bool
  s_ended :: bool
  s_sprite :: "string option"
  s_format :: "string option"
  s_start :: rat
  s_stop :: rat
  s_playStart :: rat
  s_interval :: "fade_interval option"
  s_fadeTo :: "rat option"
  s_node :: "node option"
  s_configCopy :: sound_config

text \<open>
  A source candidate (an element of \<^verbatim>\<open>_src\<close>): a string, or a value that is not a string,
  of which only the truthiness matters.
\<close>

datatype source = Str string | NotString bool

text \<open>The argument of \<^verbatim>\<open>play\<close>: nothing, a sound id, or a sprite name.\<close>

datatype play_arg = NoArg | IdArg nat | SpriteArg string

text \<open>
  A queued task \<^verbatim>\<open>{event, action}\<close>.  The action is a closure that repeats one call of
  the Howl; every site that pushes a task pairs the call with the name of the method, so
  a task is the call and \<open>task_event\<close> gives its event.
\<close>

datatype task =
    PlayTask play_arg
  | PauseTask "nat option"
  | StopTask "nat option"
  | MuteTask bool "nat option"
  | VolumeTask rat "nat option" bool
  | FadeTask rat rat rat "nat option"
  | RateTask "rat list"
  | SeekTask "rat list"

fun task_event :: "task \<Rightarrow> string" where
  "task_event (PlayTask a) = ''play''"
| "task_event (PauseTask i) = ''pause''"
| "task_event (StopTask i) = ''stop''"
| "task_event (MuteTask m i) = ''mute''"
| "task_event (VolumeTask v i b) = ''volume''"
| "task_event (FadeTask f t l i) = ''fade''"
| "task_event (RateTask xs) = ''rate''"
| "task_event (SeekTask xs) = ''seek''"

text \<open>Calls into the audio backend, recorded in the order the code makes them.\<close>

datatype backend_call =
    CreateGain nat
  | ObtainAudio nat
  | NodeLoad nat
  | Disconnect nat
  | AutoResume
  | AutoSuspend
  | RefreshBuffer nat
  | GainSet nat rat
  | GainRamp nat rat rat
  | GainCancel nat
  | LoadBuffer
  | BufferStart nat rat "rat option"
  | BufferStop nat
  | CleanBuffer nat
  | NodePlay nat
  | NodePause nat
  | ClearSound nat

text \<open>
  An entry of \<^verbatim>\<open>_endTimers\<close>: a timeout that will call \<^verbatim>\<open>_ended(sound)\<close> (the delay is
  \<open>None\<close> when it is not a finite number), or the \<^verbatim>\<open>ended\<close> listener of an HTML5 node,
  or the handle of a timer that has fired and was not cleared.
\<close>

datatype end_timer = Timeout nat "rat option" | EndedListener nat | Fired

text \<open>
  What a call of \<^verbatim>\<open>play\<close> computed before it hands over to the backend: the captured
  variables of the closures \<^verbatim>\<open>setParams\<close>, \<^verbatim>\<open>playWebAudio\<close> and \<^verbatim>\<open>playHtml5\<close>.
\<close>

record pend =
  p_sound :: nat
  p_sprite :: string
  p_seek :: rat
  p_duration :: rat
  p_timeout :: "rat option"
  p_start :: rat
  p_stop :: rat
  p_internal :: bool

text \<open>
  Callbacks the code has handed to the event loop and that have not run yet: a play
  waiting for the \<^verbatim>\<open>resume\<close> event or for the node's can-play event, the promise of
  \<^verbatim>\<open>node.play()\<close>, the deferred \<^verbatim>\<open>play\<close> event of Web Audio, the retry of \<^verbatim>\<open>_ended\<close>.
\<close>

datatype callback =
    OnResume pend
  | OnCanPlay pend
  | OnPromise pend
  | EmitPlay nat
  | EndedRetry nat

text \<open>
  The part of the \<^verbatim>\<open>Howler\<close> singleton and of the browser the Howl reads:
  \<open>g_running\<close> is \<^verbatim>\<open>Howler.state === 'running' && Howler.ctx.state !== 'interrupted'\<close>,
  \<open>g_now\<close> is \<^verbatim>\<open>Howler.ctx.currentTime\<close> (seconds), \<open>g_date\<close> is \<^verbatim>\<open>Date.now()\<close>
  (milliseconds), \<open>g_https\<close> says that the page is served over https,
  \<open>g_ejecta\<close> and \<open>g_cocoon\<close> are \<^verbatim>\<open>windowObject.ejecta\<close> and
  \<^verbatim>\<open>Howler._navigator.isCocoonJS\<close>, \<open>g_ie\<close> is Internet Explorer.
\<close>

record howler =
  g_noAudio :: bool
  g_codecs :: "string \<Rightarrow> bool"
  g_muted :: bool
  g_volume :: rat
  g_running :: bool
  g_now :: rat
  g_date :: rat
  g_https :: bool
  g_ejecta :: bool
  g_cocoon :: bool
  g_ie :: bool

record howl =
  h_state :: string
  h_sounds :: "nat list"
  h_heap :: "nat \<Rightarrow> sound"
  h_next :: nat
  h_queue :: "task list"
  h_playLock :: bool
  h_webAudio :: bool
  h_muted :: bool
  h_loop :: bool
  h_volume :: rat
  h_rate :: rat
  h_pool :: nat
  h_sprite :: "string \<rightharpoonup> sprite_def"
  h_endTimers :: "nat \<rightharpoonup> end_timer"
  h_pending :: "callback list"
  h_src :: "source list"
  h_format :: "string list"
  h_url :: "source option"
  h_soundConfig :: sound_config
  h_howler :: howler
  h_emitted :: "(string \<times> nat option \<times> string) list"
  h_backend :: "backend_call list"

subsection \<open>Sounds of a group: lookup, registration, recycling\<close>

text \<open>JavaScript truthiness of an optional number: \<^verbatim>\<open>null\<close> and \<open>0\<close> are falsy.\<close>

fun truthy :: "nat option \<Rightarrow> bool" where
  "truthy None = False"
| "truthy (Some n) = (n \<noteq> 0)"

text \<open>
  \<^verbatim>\<open>_soundById(id)\<close> walks the array with \<^verbatim>\<open>forEach((sound, index) => ...)\<close> and keeps the
  sound whose \<^emph>\<open>index\<close> equals \<open>id\<close>.
\<close>

fun soundById :: "howl \<Rightarrow> nat option \<Rightarrow> nat option" where
  "soundById h None = None"
| "soundById h (Some i) = (if i < length (h_sounds h) then Some (h_sounds h ! i) else None)"

text \<open>\<^verbatim>\<open>_getSoundIds(id)\<close>: the ids of all sounds when \<open>id\<close> is truthy, else \<^verbatim>\<open>[id]\<close>.\<close>

definition getSoundIds :: "howl \<Rightarrow> nat option \<Rightarrow> nat option list" where
  "getSoundIds h i =
     (if truthy i then map (\<lambda>r. Some (s_id (h_heap h r))) (h_sounds h) else [i])"

text \<open>\<^verbatim>\<open>register(sound)\<close> pushes the sound and returns the new length of the array.\<close>

definition register :: "howl \<Rightarrow> nat \<Rightarrow> nat \<times> howl" where
  "register h r = (length (h_sounds h) + 1, h\<lparr>h_sounds := h_sounds h @ [r]\<rparr>)"

text \<open>
  The constructor of \<^verbatim>\<open>Sound\<close>.  The configuration of a sound made by \<^verbatim>\<open>new Sound(self)\<close>
  is fetched from the Howl (\<open>h_soundConfig\<close>).  The constructor keeps a copy of it for
  \<^verbatim>\<open>reset\<close>, silences the sound when anything is muted, creates the backend node and
  registers the sound, which gives it its id.
\<close>

definition freshNode :: "rat \<Rightarrow> node" where
  "freshNode v = \<lparr>n_bufferSource = False, n_gain = v, n_paused = True, n_ended = False,
     n_currentTime = 0, n_readyState = 0, n_duration = NaN, n_silence = False,
     n_muted = False, n_volume = v, n_playbackRate = 1, n_unlocked = False,
     n_play = PlayPromise, n_pausedAfterPlay = False\<rparr>"

definition newSound :: "howl \<Rightarrow> nat \<times> howl" where
  "newSound h =
     (let cfg = h_soundConfig h;
          g = h_howler h;
          r = h_next h;
          vol = (if g_muted g \<or> c_muted cfg \<or> h_muted h then 0 else c_volume cfg);
          nd = (if h_webAudio h then Some (freshNode vol)
                else if \<not> g_noAudio g then Some (freshNode (vol * g_volume g))
                else None);
          calls = (if h_webAudio h then [CreateGain r, GainSet r vol]
                   else if \<not> g_noAudio g then [ObtainAudio r, NodeLoad r]
                   else []);
          (i, h1) = register h r;
          s = \<lparr>s_id = i, s_muted = c_muted cfg, s_loop = c_loop cfg, s_volume = vol,
               s_rate = c_rate cfg, s_seek = c_seek cfg, s_rateSeek = c_rateSeek cfg,
               s_paused = c_paused cfg, s_ended = c_ended cfg, s_sprite = c_sprite cfg,
               s_format = c_format cfg, s_start = 0, s_stop = 0, s_playStart = 0,
               s_interval = None, s_fadeTo = None, s_node = nd, s_configCopy = cfg\<rparr>
      in (r, h1\<lparr>h_heap := (h_heap h)(r := s), h_next := Suc r,
                 h_backend := h_backend h @ calls\<rparr>))"

text \<open>\<^verbatim>\<open>Sound.reset()\<close> puts the configuration copy back; the id stays.\<close>

definition reset :: "sound \<Rightarrow> sound" where
  "reset s =
     (let cfg = s_configCopy s
      in s\<lparr>s_muted := c_muted cfg, s_loop := c_loop cfg, s_volume := c_volume cfg,
            s_rate := c_rate cfg, s_seek := c_seek cfg, s_rateSeek := c_rateSeek cfg,
            s_paused := c_paused cfg, s_ended := c_ended cfg, s_sprite := c_sprite cfg,
            s_format := c_format cfg\<rparr>)"

text \<open>
  \<^verbatim>\<open>_drain()\<close>.  The loop runs \<open>i\<close> from the last index down to 0; the third argument of
  \<open>drainLoop\<close> is \<open>i + 1\<close>.  \<^verbatim>\<open>splice(i, 1)\<close> removes the element at index \<open>i\<close>.
\<close>

fun drainLoop :: "nat \<Rightarrow> nat \<Rightarrow> nat \<Rightarrow> howl \<Rightarrow> howl" where
  "drainLoop limit count 0 h = h"
| "drainLoop limit count (Suc i) h =
     (if count \<le> limit then h
      else
        let r = h_sounds h ! i in
        if s_ended (h_heap h r) then
          drainLoop limit (count - 1) i
            (h\<lparr>h_backend :=
                  (if h_webAudio h \<and> s_node (h_heap h r) \<noteq> None
                   then h_backend h @ [Disconnect r] else h_backend h),
               h_sounds := take i (h_sounds h) @ drop (Suc i) (h_sounds h)\<rparr>)
        else drainLoop limit count i h)"

definition drain :: "howl \<Rightarrow> howl" where
  "drain h =
     (let limit = h_pool h in
      if length (h_sounds h) < limit then h
      else drainLoop limit (length (filter (\<lambda>r. s_ended (h_heap h r)) (h_sounds h)))
             (length (h_sounds h)) h)"

text \<open>
  \<^verbatim>\<open>_inactiveSound()\<close>: drain, then recycle the first ended sound of the array, or
  make a new one.
\<close>

definition inactiveSound :: "howl \<Rightarrow> nat \<times> howl" where
  "inactiveSound h0 =
     (let h = drain h0 in
      case find (\<lambda>r. s_ended (h_heap h r)) (h_sounds h) of
        Some r \<Rightarrow> (r, h\<lparr>h_heap := (h_heap h)(r := reset (h_heap h r))\<rparr>)
      | None \<Rightarrow> newSound h)"

text \<open>\<^verbatim>\<open>playing(id)\<close> with a numeric id.\<close>

definition playing :: "howl \<Rightarrow> nat \<Rightarrow> bool" where
  "playing h i = (case soundById h (Some i) of Some r \<Rightarrow> \<not> s_paused (h_heap h r) | None \<Rightarrow> False)"


subsection \<open>Results, errors and the methods of the class\<close>

text \<open>
  A call returns a value and the new group, or throws: \<open>Inl (e, h)\<close> is the exception
  \<open>e\<close> thrown in the state \<open>h\<close> (\<^verbatim>\<open>try/catch\<close> resumes from that state).  The methods
  of the class call each other through \<^verbatim>\<open>self\<close>, and nothing bounds the depth of these
  calls, so the embedding bounds it: \<open>OutOfFuel\<close> is not an exception of the program,
  it says that the bound was too small, and no \<^verbatim>\<open>catch\<close> catches it.  \<open>Unsupported\<close>
  marks an input the embedding leaves out (a fade of length 0, whose steps are not finite
  numbers).
\<close>

datatype error = TypeError | ReferenceError | OutOfFuel | Unsupported

type_synonym 'a result = "(error \<times> howl) + ('a \<times> howl)"

definition bindR :: "'a result \<Rightarrow> ('a \<Rightarrow> howl \<Rightarrow> 'b result) \<Rightarrow> 'b result" where
  "bindR m f = (case m of Inl e \<Rightarrow> Inl e | Inr (x, h) \<Rightarrow> f x h)"

definition ok :: "howl \<Rightarrow> unit result" where
  "ok h = Inr ((), h)"

text \<open>A \<^verbatim>\<open>for\<close> loop over an array computed before the loop.\<close>

fun forEachR :: "('a \<Rightarrow> howl \<Rightarrow> unit result) \<Rightarrow> 'a list \<Rightarrow> howl \<Rightarrow> unit result" where
  "forEachR f [] h = ok h"
| "forEachR f (x # xs) h = bindR (f x h) (\<lambda>_. forEachR f xs)"

text \<open>What \<^verbatim>\<open>volume\<close> returns: the Howl itself or a number.\<close>

datatype vret = RSelf | RNum rat

text \<open>
  The methods reached through \<^verbatim>\<open>self\<close>.  \<open>m_other\<close> runs a queued call of a method
  that is not embedded here (\<^verbatim>\<open>pause\<close>, \<^verbatim>\<open>mute\<close>, \<^verbatim>\<open>rate\<close>, \<^verbatim>\<open>seek\<close>): it is a
  parameter of the embedding, and every theorem holds whatever it does.
\<close>

record methods =
  m_emit :: "string \<Rightarrow> nat option \<Rightarrow> string \<Rightarrow> howl \<Rightarrow> unit result"
  m_loadQueue :: "string option \<Rightarrow> howl \<Rightarrow> unit result"
  m_play :: "play_arg \<Rightarrow> bool \<Rightarrow> howl \<Rightarrow> nat option result"
  m_stop :: "nat option \<Rightarrow> bool \<Rightarrow> howl \<Rightarrow> unit result"
  m_volume :: "rat \<Rightarrow> nat option \<Rightarrow> bool \<Rightarrow> howl \<Rightarrow> vret result"
  m_fade :: "rat \<Rightarrow> rat \<Rightarrow> rat \<Rightarrow> nat option \<Rightarrow> howl \<Rightarrow> unit result"
  m_stopFade :: "nat option \<Rightarrow> howl \<Rightarrow> unit result"
  m_ended :: "nat \<Rightarrow> howl \<Rightarrow> unit result"
  m_other :: "task \<Rightarrow> howl \<Rightarrow> unit result"

subsection \<open>Small steps on the state\<close>

definition upd :: "nat \<Rightarrow> (sound \<Rightarrow> sound) \<Rightarrow> howl \<Rightarrow> howl" where
  "upd r f h = h\<lparr>h_heap := (h_heap h)(r := f (h_heap h r))\<rparr>"

definition updNode :: "nat \<Rightarrow> (node \<Rightarrow> node) \<Rightarrow> howl \<Rightarrow> howl" where
  "updNode r f h = upd r (\<lambda>s. s\<lparr>s_node := map_option f (s_node s)\<rparr>) h"

definition call :: "backend_call \<Rightarrow> howl \<Rightarrow> howl" where
  "call c h = h\<lparr>h_backend := h_backend h @ [c]\<rparr>"

definition enqueue :: "task \<Rightarrow> howl \<Rightarrow> howl" where
  "enqueue t h = h\<lparr>h_queue := h_queue h @ [t]\<rparr>"

definition later :: "callback \<Rightarrow> howl \<Rightarrow> howl" where
  "later c h = h\<lparr>h_pending := h_pending h @ [c]\<rparr>"

text \<open>A quotient that JavaScript computes as a finite number, or \<open>None\<close>.\<close>

definition jsdiv :: "rat \<Rightarrow> rat \<Rightarrow> rat option" where
  "jsdiv a b = (if b = 0 then None else Some (a / b))"

text \<open>\<^verbatim>\<open>_clearTimer(id)\<close>: forget the end timer of the id, if there is one.\<close>

fun clearTimer :: "nat option \<Rightarrow> howl \<Rightarrow> howl" where
  "clearTimer None h = h"
| "clearTimer (Some i) h = h\<lparr>h_endTimers := (h_endTimers h)(i := None)\<rparr>"

text \<open>\<^verbatim>\<open>_cleanBuffer(node)\<close>; the node must exist.\<close>

definition cleanBuffer :: "nat \<Rightarrow> howl \<Rightarrow> unit result" where
  "cleanBuffer r h =
     (case s_node (h_heap h r) of
        None \<Rightarrow> Inl (TypeError, h)
      | Some nd \<Rightarrow> ok (updNode r (\<lambda>n. n\<lparr>n_bufferSource := False\<rparr>) (call (CleanBuffer r) h)))"

text \<open>\<^verbatim>\<open>_clearSound(node)\<close>: point the node at the silent source, except in IE.\<close>

definition clearSound :: "nat \<Rightarrow> howl \<Rightarrow> howl" where
  "clearSound r h =
     (if g_ie (h_howler h) then h
      else updNode r (\<lambda>n. n\<lparr>n_silence := True\<rparr>) (call (ClearSound r) h))"

subsection \<open>Events and the queue\<close>

text \<open>
  \<^verbatim>\<open>emit(event, id, msg)\<close> (lines 97 to 118; \<^verbatim>\<open>_emit\<close>, lines 1516 to 1538, is the same
  loop).  The listeners of the event are handed to \<^verbatim>\<open>setTimeout\<close>: they run later, from
  the event loop, and are the caller's code, not the engine's.  The embedding records the
  event with its id and message in \<open>h_emitted\<close>; the listener tables themselves (and
  \<^verbatim>\<open>off\<close>, which removes a \<^verbatim>\<open>once\<close> listener) are left out.  Then the event is passed to
  the queue.
\<close>

definition emit :: "methods \<Rightarrow> string \<Rightarrow> nat option \<Rightarrow> string \<Rightarrow> howl \<Rightarrow> unit result" where
  "emit self event i msg h =
     m_loadQueue self (Some event) (h\<lparr>h_emitted := h_emitted h @ [(event, i, msg)]\<rparr>)"

text \<open>\<^verbatim>\<open>task.action()\<close>: the call the task repeats.\<close>

fun runTask :: "methods \<Rightarrow> task \<Rightarrow> howl \<Rightarrow> unit result" where
  "runTask self (PlayTask a) h = bindR (m_play self a False h) (\<lambda>_. ok)"
| "runTask self (StopTask i) h = m_stop self i False h"
| "runTask self (VolumeTask v i flag) h = bindR (m_volume self v i flag h) (\<lambda>_. ok)"
| "runTask self (FadeTask f t l i) h = m_fade self f t l i h"
| "runTask self t h = m_other self t h"

text \<open>\<^verbatim>\<open>!event\<close>: no event, or the empty string.\<close>

fun noEvent :: "string option \<Rightarrow> bool" where
  "noEvent None = True"
| "noEvent (Some e) = (e = [])"

text \<open>\<^verbatim>\<open>_loadQueue(event)\<close>.\<close>

definition loadQueue :: "methods \<Rightarrow> string option \<Rightarrow> howl \<Rightarrow> unit result" where
  "loadQueue self event h =
     (case h_queue h of
        [] \<Rightarrow> ok h
      | task # rest \<Rightarrow>
          bindR (if Some (task_event task) = event
                 then m_loadQueue self None (h\<lparr>h_queue := rest\<rparr>)
                 else ok h)
            (\<lambda>_ h1. if noEvent event then runTask self task h1 else ok h1))"


subsection \<open>Volume and fades\<close>

text \<open>
  \<^verbatim>\<open>volume(vol, id, internal)\<close> with a number as first argument; \<open>i = None\<close> is a call
  with one argument (or with \<^verbatim>\<open>undefined\<close> as the second), \<open>flag\<close> is the third argument.
  With one argument the code asks \<^verbatim>\<open>_getSoundIds()\<close> whether the number is an id; that
  list is \<^verbatim>\<open>[null]\<close>, so the number is always taken as a volume.
\<close>

definition volume :: "methods \<Rightarrow> rat \<Rightarrow> nat option \<Rightarrow> bool \<Rightarrow> howl \<Rightarrow> vret result" where
  "volume self vol i flag h =
     (if 0 \<le> vol \<and> vol \<le> 1 then
        if h_state h \<noteq> ''loaded'' \<or> h_playLock h
        then Inr (RSelf, enqueue (VolumeTask vol i flag) h)
        else
          let h1 = (if i = None then h\<lparr>h_volume := vol\<rparr> else h) in
          bindR
            (forEachR
               (\<lambda>index h2.
                  case soundById h2 index of
                    None \<Rightarrow> ok h2
                  | Some r \<Rightarrow>
                      bindR (let h3 = upd r (\<lambda>s. s\<lparr>s_volume := vol\<rparr>) h2
                             in if \<not> flag then m_stopFade self index h3 else ok h3)
                        (\<lambda>_ h4.
                           let s = h_heap h4 r;
                               g = h_howler h4;
                               h5 = (if h_webAudio h4 \<and> s_node s \<noteq> None \<and> \<not> s_muted s
                                     then updNode r (\<lambda>n. n\<lparr>n_gain := vol\<rparr>) (call (GainSet r vol) h4)
                                     else if s_node s \<noteq> None \<and> \<not> s_muted s
                                     then updNode r (\<lambda>n. n\<lparr>n_volume := vol * g_volume g\<rparr>) h4
                                     else h4)
                           in m_emit self ''volume'' (Some (s_id s)) [] h5))
               (getSoundIds h1 i) h1)
            (\<lambda>_ h6. Inr (RSelf, h6))
      else
        Inr (case (if truthy i then soundById h i
                   else (case h_sounds h of [] \<Rightarrow> None | r # _ \<Rightarrow> Some r)) of
               Some r \<Rightarrow> RNum (s_volume (h_heap h r))
             | None \<Rightarrow> RNum 0, h))"

text \<open>\<^verbatim>\<open>_stopFade(id)\<close>.\<close>

definition stopFade :: "methods \<Rightarrow> nat option \<Rightarrow> howl \<Rightarrow> unit result" where
  "stopFade self i h =
     (case soundById h i of
        None \<Rightarrow> ok h
      | Some r \<Rightarrow>
          (case s_interval (h_heap h r) of
             None \<Rightarrow> ok h
           | Some iv \<Rightarrow>
               if h_webAudio h \<and> s_node (h_heap h r) = None then Inl (TypeError, h)
               else
                 let h1 = (if h_webAudio h then call (GainCancel r) h else h);
                     h2 = upd r (\<lambda>s. s\<lparr>s_interval := None\<rparr>) h1
                 in bindR (case s_fadeTo (h_heap h2 r) of
                             Some v \<Rightarrow> m_volume self v i False h2
                           | None \<Rightarrow> Inr (RNum 0, h2))
                      (\<lambda>_ h3. m_emit self ''fade'' i [] (upd r (\<lambda>s. s\<lparr>s_fadeTo := None\<rparr>) h3))))"

text \<open>
  \<^verbatim>\<open>_startFadeInterval(sound, from, to, len, id, isGroup)\<close> stores the target and starts
  the interval; its ticks come from the event loop (\<open>fadeTick\<close>).
\<close>

definition startFadeInterval :: "nat \<Rightarrow> rat \<Rightarrow> rat \<Rightarrow> rat \<Rightarrow> bool \<Rightarrow> howl \<Rightarrow> howl" where
  "startFadeInterval r from to len isGroup h =
     (let diff = to - from;
          steps = \<bar>diff / (1 / 100)\<bar>;
          stepLen = max 4 (if steps > 0 then len / steps else len)
      in upd r (\<lambda>s. s\<lparr>s_fadeTo := Some to,
                       s_interval := Some \<lparr>f_from = from, f_to = to, f_len = len,
                          f_isGroup = isGroup, f_vol = from,
                          f_lastTick = g_date (h_howler h), f_stepLen = stepLen\<rparr>\<rparr>) h)"

text \<open>\<^verbatim>\<open>Math.round(vol * 100) / 100\<close>.\<close>

definition round2 :: "rat \<Rightarrow> rat" where
  "round2 v = of_int \<lfloor>v * 100 + 1 / 2\<rfloor> / 100"

text \<open>One tick of the interval of the sound at address \<open>r\<close>.\<close>

definition fadeTick :: "methods \<Rightarrow> nat \<Rightarrow> howl \<Rightarrow> unit result" where
  "fadeTick self r h =
     (case s_interval (h_heap h r) of
        None \<Rightarrow> ok h
      | Some iv \<Rightarrow>
          if f_len iv = 0 then Inl (Unsupported, h)
          else
            let now = g_date (h_howler h);
                tick = (now - f_lastTick iv) / f_len iv;
                diff = f_to iv - f_from iv;
                v1 = f_vol iv + diff * tick;
                v2 = (if diff < 0 then max (f_to iv) v1 else min (f_to iv) v1);
                vol = round2 v2;
                sid = s_id (h_heap h r);
                h1 = upd r (\<lambda>s. s\<lparr>s_interval := Some (iv\<lparr>f_vol := vol, f_lastTick := now\<rparr>)\<rparr>) h
            in bindR (if h_webAudio h1 then Inr (RSelf, upd r (\<lambda>s. s\<lparr>s_volume := vol\<rparr>) h1)
                      else m_volume self vol (Some sid) True h1)
                 (\<lambda>_ h2.
                    let h3 = (if f_isGroup iv then h2\<lparr>h_volume := vol\<rparr> else h2) in
                    if (f_to iv < f_from iv \<and> vol \<le> f_to iv) \<or> (f_to iv > f_from iv \<and> vol \<ge> f_to iv)
                    then bindR (m_volume self (f_to iv) (Some sid) False
                                  (upd r (\<lambda>s. s\<lparr>s_interval := None, s_fadeTo := None\<rparr>) h3))
                           (\<lambda>_ h4. m_emit self ''fade'' (Some sid) [] h4)
                    else ok h3))"

text \<open>\<^verbatim>\<open>fade(from, to, len, id)\<close>.\<close>

definition fade :: "methods \<Rightarrow> rat \<Rightarrow> rat \<Rightarrow> rat \<Rightarrow> nat option \<Rightarrow> howl \<Rightarrow> unit result" where
  "fade self from0 to0 len i h =
     (if h_state h \<noteq> ''loaded'' \<or> h_playLock h
      then ok (enqueue (FadeTask from0 to0 len i) h)
      else
        let from = min (max 0 from0) 1;
            to = min (max 0 to0) 1
        in bindR (m_volume self from i False h)
             (\<lambda>_ h1.
                forEachR
                  (\<lambda>index h2.
                     case soundById h2 index of
                       None \<Rightarrow> ok h2
                     | Some r \<Rightarrow>
                         bindR (if \<not> truthy i then m_stopFade self index h2 else ok h2)
                           (\<lambda>_ h3.
                              if h_webAudio h3 \<and> \<not> s_muted (h_heap h3 r) \<and> s_node (h_heap h3 r) = None
                              then Inl (TypeError, upd r (\<lambda>s. s\<lparr>s_volume := from\<rparr>) h3)
                              else
                                let now = g_now (h_howler h3);
                                    h4 = (if h_webAudio h3 \<and> \<not> s_muted (h_heap h3 r)
                                          then call (GainRamp r to (now + len / 1000))
                                                 (updNode r (\<lambda>n. n\<lparr>n_gain := from\<rparr>)
                                                    (call (GainSet r from)
                                                       (upd r (\<lambda>s. s\<lparr>s_volume := from\<rparr>) h3)))
                                          else h3)
                                in ok (startFadeInterval r from to len (i = None) h4)))
                  (getSoundIds h1 i) h1))"

subsection \<open>Stopping and the end of playback\<close>

text \<open>The part of \<^verbatim>\<open>stop\<close> that talks to the node of a sound.\<close>

definition stopNode :: "nat \<Rightarrow> howl \<Rightarrow> unit result" where
  "stopNode r h =
     (case s_node (h_heap h r) of
        None \<Rightarrow> ok h
      | Some nd \<Rightarrow>
          if h_webAudio h then
            (if n_bufferSource nd then cleanBuffer r (call (BufferStop r) h) else ok h)
          else if n_duration nd \<noteq> NaN then
            (let h1 = updNode r (\<lambda>n. n\<lparr>n_currentTime := s_start (h_heap h r), n_paused := True\<rparr>)
                        (call (NodePause r) h)
             in ok (if n_duration nd = Infinity then clearSound r h1 else h1))
          else ok h)"

text \<open>\<^verbatim>\<open>stop(id, internal)\<close>.\<close>

definition stop :: "methods \<Rightarrow> nat option \<Rightarrow> bool \<Rightarrow> howl \<Rightarrow> unit result" where
  "stop self i internal h =
     (if h_state h \<noteq> ''loaded'' \<or> h_playLock h
      then ok (enqueue (StopTask i) h)
      else
        forEachR
          (\<lambda>index h0.
             let h1 = clearTimer index h0 in
             case soundById h1 index of
               None \<Rightarrow> ok h1
             | Some r \<Rightarrow>
                 bindR (m_stopFade self index
                          (upd r (\<lambda>s. s\<lparr>s_seek := s_start s, s_rateSeek := 0,
                                         s_paused := True, s_ended := True\<rparr>) h1))
                   (\<lambda>_ h2. bindR (stopNode r h2)
                      (\<lambda>_ h3. if \<not> internal
                               then m_emit self ''stop'' (Some (s_id (h_heap h3 r))) [] h3
                               else ok h3)))
          (getSoundIds h i) h)"

text \<open>
  \<^verbatim>\<open>!!(sound._loop || self._sprite[sprite][2])\<close>: the table is read only when the sound
  does not loop, and the read fails when the sprite is not in the table.
\<close>

definition loops :: "howl \<Rightarrow> sound \<Rightarrow> string option \<Rightarrow> bool option" where
  "loops h s sprite =
     (if s_loop s then Some True
      else case sprite of
             None \<Rightarrow> None
           | Some n \<Rightarrow> map_option (\<lambda>(off, len, l). l) (h_sprite h n))"

text \<open>
  The first test of \<^verbatim>\<open>_ended\<close>: on the HTML5 backend the node of the sound is still
  playing before the stop bound.
\<close>

definition stillPlaying :: "howl \<Rightarrow> nat \<Rightarrow> bool" where
  "stillPlaying h r =
     (\<not> h_webAudio h \<and>
      (case s_node (h_heap h r) of
         Some nd \<Rightarrow> \<not> n_paused nd \<and> \<not> n_ended nd \<and> n_currentTime nd < s_stop (h_heap h r)
       | None \<Rightarrow> False))"

text \<open>\<^verbatim>\<open>_ended(sound)\<close>, the end-of-playback procedure.\<close>

definition ended :: "methods \<Rightarrow> nat \<Rightarrow> howl \<Rightarrow> unit result" where
  "ended self r h =
     (let s = h_heap h r in
      if stillPlaying h r
      then ok (later (EndedRetry r) h)
      else
        case loops h s (s_sprite s) of
          None \<Rightarrow> Inl (TypeError, h)
        | Some loop \<Rightarrow>
            bindR (m_emit self ''end'' (Some (s_id s)) [] h)
              (\<lambda>_ h1.
                 let sid = s_id (h_heap h1 r) in
                 if \<not> h_webAudio h1 \<and> loop then
                   bindR (m_stop self (Some sid) True h1)
                     (\<lambda>_ h2. bindR (m_play self (IdArg sid) False h2) (\<lambda>_. ok))
                 else if h_webAudio h1 \<and> loop then
                   bindR (m_emit self ''play'' (Some sid) [] h1)
                     (\<lambda>_ h2.
                        let s2 = h_heap h2 r;
                            timeout = jsdiv ((s_stop s2 - s_start s2) * 1000) \<bar>s_rate s2\<bar>
                        in ok (upd r (\<lambda>s. s\<lparr>s_seek := s_start s, s_rateSeek := 0,
                                              s_playStart := g_now (h_howler h2)\<rparr>)
                                 h2\<lparr>h_endTimers := (h_endTimers h2)(s_id s2 := Some (Timeout r timeout))\<rparr>))
                 else if h_webAudio h1 then
                   bindR (cleanBuffer r
                            (clearTimer (Some sid)
                               (upd r (\<lambda>s. s\<lparr>s_paused := True, s_ended := True,
                                              s_seek := s_start s, s_rateSeek := 0\<rparr>) h1)))
                     (\<lambda>_ h2. ok (call AutoSuspend h2))
                 else m_stop self (Some sid) True h1))"


subsection \<open>Playing\<close>

text \<open>
  \<^verbatim>\<open>setParams()\<close>, the closure of \<^verbatim>\<open>play\<close> that marks the sound as playing.  It runs
  when the backend starts, which may be later than the call of \<^verbatim>\<open>play\<close>.
\<close>

definition setParams :: "pend \<Rightarrow> howl \<Rightarrow> unit result" where
  "setParams p h =
     (case loops h (h_heap h (p_sound p)) (Some (p_sprite p)) of
        None \<Rightarrow> Inl (TypeError,
                 upd (p_sound p) (\<lambda>s. s\<lparr>s_paused := False, s_seek := p_seek p,
                                         s_start := p_start p, s_stop := p_stop p\<rparr>) h)
      | Some l \<Rightarrow> ok (upd (p_sound p) (\<lambda>s. s\<lparr>s_paused := False, s_seek := p_seek p,
                                         s_start := p_start p, s_stop := p_stop p,
                                         s_loop := l\<rparr>) h))"

text \<open>\<^verbatim>\<open>playWebAudio()\<close>: start the buffer source, arm the end timer, defer the event.\<close>

definition playWebAudio :: "pend \<Rightarrow> howl \<Rightarrow> unit result" where
  "playWebAudio p h =
     bindR (setParams p (h\<lparr>h_playLock := False\<rparr>))
       (\<lambda>_ h1.
          let r = p_sound p; s = h_heap h1 r in
          case s_node s of
            None \<Rightarrow> Inl (TypeError, h1)
          | Some nd \<Rightarrow>
              let vol = (if s_muted s \<or> h_muted h1 then 0 else s_volume s);
                  h2 = call (BufferStart r (p_seek p) (if s_loop s then None else Some (p_duration p)))
                         (upd r (\<lambda>s. s\<lparr>s_playStart := g_now (h_howler h1)\<rparr>)
                            (updNode r (\<lambda>n. n\<lparr>n_bufferSource := True, n_gain := vol\<rparr>)
                               (call (GainSet r vol) (call (RefreshBuffer r) h1))));
                  h3 = (case p_timeout p of
                          None \<Rightarrow> h2
                        | Some t \<Rightarrow> h2\<lparr>h_endTimers := (h_endTimers h2)(s_id s := Some (Timeout r (Some t)))\<rparr>)
              in ok (if \<not> p_internal p then later (EmitPlay (s_id s)) h3 else h3))"

text \<open>
  \<^verbatim>\<open>playHtml5()\<close>.  Whatever is thrown inside the \<^verbatim>\<open>try\<close> block ends in a
  \<^verbatim>\<open>playerror\<close> event.
\<close>

definition playHtml5 :: "methods \<Rightarrow> pend \<Rightarrow> howl \<Rightarrow> unit result" where
  "playHtml5 self p h =
     (let r = p_sound p; s = h_heap h r; g = h_howler h in
      case s_node s of
        None \<Rightarrow> Inl (TypeError, h)
      | Some nd \<Rightarrow>
          let h1 = call (NodePlay r)
                     (updNode r (\<lambda>n. n\<lparr>n_currentTime := p_seek p,
                                         n_muted := (s_muted s \<or> h_muted h \<or> g_muted g \<or> n_muted n),
                                         n_volume := s_volume s * g_volume g,
                                         n_playbackRate := s_rate s\<rparr>) h);
              body =
                (if n_play nd = PlayThrows then Inl (TypeError, h1)
                 else
                   bindR
                     (let h2 = updNode r (\<lambda>n. n\<lparr>n_paused := n_pausedAfterPlay nd\<rparr>) h1 in
                      if n_play nd = PlayPromise then
                        bindR (setParams p (h2\<lparr>h_playLock := True\<rparr>))
                          (\<lambda>_ h3. ok (later (OnPromise p) h3))
                      else if \<not> p_internal p then
                        bindR (setParams p (h2\<lparr>h_playLock := False\<rparr>))
                          (\<lambda>_ h3. bindR (m_emit self ''play'' (Some (s_id (h_heap h3 r))) [] h3)
                             (\<lambda>_ h4. m_loadQueue self None h4))
                      else ok h2)
                     (\<lambda>_ h5.
                        let s5 = h_heap h5 r;
                            h6 = updNode r (\<lambda>n. n\<lparr>n_playbackRate := s_rate s5\<rparr>) h5
                        in if (case s_node s5 of Some n \<Rightarrow> n_paused n | None \<Rightarrow> False)
                           then m_emit self ''playerror'' (Some (s_id s5)) ''Playback was unable to start.'' h6
                           else ok (h6\<lparr>h_endTimers := (h_endTimers h6)(s_id s5 := Some ((if p_sprite p \<noteq> ''__default'' \<or> s_loop s5
                                       then Timeout r (p_timeout p) else EndedListener r)))\<rparr>)))
          in (case body of
                Inl (e, h') \<Rightarrow>
                  if e = OutOfFuel \<or> e = Unsupported then Inl (e, h')
                  else m_emit self ''playerror'' (Some (s_id (h_heap h' r))) ''error'' h'
              | Inr x \<Rightarrow> Inr x))"

text \<open>
  \<^verbatim>\<open>play(sprite, internal)\<close>.  First the target: \<open>playTarget\<close> gives the id and the
  sprite the first \<^verbatim>\<open>if\<close> chain leaves in the variables \<^verbatim>\<open>id\<close> and \<^verbatim>\<open>sprite\<close>.
\<close>

definition playTarget :: "howl \<Rightarrow> play_arg \<Rightarrow> nat option \<times> string option" where
  "playTarget h arg =
     (case arg of
        IdArg k \<Rightarrow> (Some k, None)
      | SpriteArg n \<Rightarrow> (None, Some n)
      | NoArg \<Rightarrow>
          if \<not> h_playLock h then
            (let cands = filter (\<lambda>r. s_paused (h_heap h r) \<and> \<not> s_ended (h_heap h r)) (h_sounds h)
             in if length cands = 1 then (Some (s_id (h_heap h (last cands))), None)
                else (None, Some ''__default''))
          else (None, Some ''__default''))"

text \<open>\<^verbatim>\<open>sound._sprite || '__default'\<close>.\<close>

definition spriteOr :: "string option \<Rightarrow> string" where
  "spriteOr sp = (case sp of None \<Rightarrow> ''__default'' | Some n \<Rightarrow> if n = [] then ''__default'' else n)"

text \<open>
  The sound the call works on (\<^verbatim>\<open>id ? self._soundById(id) : self._inactiveSound()\<close>),
  with the group after the lookup, and the sprite the variable \<^verbatim>\<open>sprite\<close> holds after
  \<^verbatim>\<open>if (id && !sprite) sprite = sound._sprite || '__default'\<close>.
\<close>

definition playFound :: "howl \<Rightarrow> play_arg \<Rightarrow> (nat \<times> howl) option" where
  "playFound h arg =
     (let i = fst (playTarget h arg)
      in if truthy i then map_option (\<lambda>r. (r, h)) (soundById h i)
         else Some (inactiveSound h))"

definition playSprite :: "howl \<Rightarrow> play_arg \<Rightarrow> sound \<Rightarrow> string option" where
  "playSprite h arg s =
     (let (i, sprite0) = playTarget h arg
      in if truthy i \<and> (sprite0 = None \<or> sprite0 = Some [])
         then Some (spriteOr (s_sprite s)) else sprite0)"

definition play :: "methods \<Rightarrow> play_arg \<Rightarrow> bool \<Rightarrow> howl \<Rightarrow> nat option result" where
  "play self arg internal h0 =
     (if (case arg of SpriteArg n \<Rightarrow> h_state h0 = ''loaded'' \<and> h_sprite h0 n = None | _ \<Rightarrow> False)
      then Inr (None, h0)
      else
        case playFound h0 arg of
          None \<Rightarrow> Inr (None, h0)
        | Some (r, h) \<Rightarrow>
            let i = fst (playTarget h0 arg);
                s = h_heap h r;
                sprite = playSprite h0 arg s
            in if h_state h \<noteq> ''loaded'' then
                 Inr (Some (s_id s),
                      enqueue (PlayTask (IdArg (s_id s)))
                        (upd r (\<lambda>s. s\<lparr>s_sprite := sprite, s_ended := False\<rparr>) h))
               else if truthy i \<and> \<not> s_paused s then
                 bindR (if \<not> internal then m_loadQueue self (Some ''play'') h else ok h)
                   (\<lambda>_ h1. Inr (Some (s_id (h_heap h1 r)), h1))
               else
                 let h1 = (if h_webAudio h then call AutoResume h else h) in
                 (case (case sprite of None \<Rightarrow> None | Some n \<Rightarrow> map_option (Pair n) (h_sprite h1 n)) of
                    None \<Rightarrow> Inl (TypeError, h1)
                  | Some (name, off, len, lp) \<Rightarrow>
                      let seek = max 0 (if s_seek s > 0 then s_seek s else off / 1000);
                          duration = max 0 ((off + len) / 1000 - seek);
                          p = \<lparr>p_sound = r, p_sprite = name, p_seek = seek,
                               p_duration = duration,
                               p_timeout = jsdiv (duration * 1000) \<bar>s_rate s\<bar>,
                               p_start = off / 1000, p_stop = (off + len) / 1000,
                               p_internal = internal\<rparr>;
                          h2 = upd r (\<lambda>s. s\<lparr>s_sprite := Some name, s_ended := False\<rparr>) h1
                      in if seek \<ge> p_stop p then
                           bindR (m_ended self r h2) (\<lambda>_ h3. Inr (None, h3))
                         else if h_webAudio h2 then
                           bindR (if g_running (h_howler h2) then playWebAudio p h2
                                  else ok (clearTimer (Some (s_id s))
                                             (later (OnResume p) (h2\<lparr>h_playLock := True\<rparr>))))
                             (\<lambda>_ h3. Inr (Some (s_id (h_heap h3 r)), h3))
                         else
                           (case s_node s of
                              None \<Rightarrow> Inl (TypeError, h2)
                            | Some nd \<Rightarrow>
                                let h3 = (if n_silence nd
                                          then call (NodeLoad r) (updNode r (\<lambda>n. n\<lparr>n_silence := False\<rparr>) h2)
                                          else h2)
                                in bindR (if n_readyState nd \<ge> 3 \<or> g_ejecta (h_howler h3)
                                             \<or> (n_readyState nd = 0 \<and> g_cocoon (h_howler h3))
                                          then playHtml5 self p h3
                                          else ok (clearTimer (Some (s_id s))
                                                     (later (OnCanPlay p) (h3\<lparr>h_playLock := True\<rparr>))))
                                     (\<lambda>_ h4. Inr (Some (s_id (h_heap h4 r)), h4)))))"

text \<open>The backend calls that start playback.\<close>

fun isStart :: "backend_call \<Rightarrow> bool" where
  "isStart (BufferStart r a b) = True"
| "isStart (NodePlay r) = True"
| "isStart c = False"

subsection \<open>Callbacks from the event loop\<close>

text \<open>The promise of \<^verbatim>\<open>node.play()\<close> is fulfilled, or rejected.\<close>

definition playThen :: "methods \<Rightarrow> pend \<Rightarrow> howl \<Rightarrow> unit result" where
  "playThen self p h =
     (let r = p_sound p;
          h1 = updNode r (\<lambda>n. n\<lparr>n_unlocked := True\<rparr>) (h\<lparr>h_playLock := False\<rparr>)
      in if \<not> p_internal p
         then bindR (m_emit self ''play'' (Some (s_id (h_heap h1 r))) [] h1)
                (\<lambda>_ h2. m_loadQueue self None h2)
         else ok h1)"

definition playCatch :: "methods \<Rightarrow> pend \<Rightarrow> howl \<Rightarrow> unit result" where
  "playCatch self p h =
     (let r = p_sound p in
      bindR (m_emit self ''playerror'' (Some (s_id (h_heap h r))) ''Playback was unable to start.''
               (h\<lparr>h_playLock := False\<rparr>))
        (\<lambda>_ h1. ok (upd r (\<lambda>s. s\<lparr>s_ended := True, s_paused := True\<rparr>) h1)))"

text \<open>
  The event loop runs a pending callback; \<open>fulfilled\<close> is the outcome of the promise when
  the callback is one.  The \<^verbatim>\<open>resume\<close> event runs the plays that wait for it.
\<close>

definition fire :: "methods \<Rightarrow> callback \<Rightarrow> bool \<Rightarrow> howl \<Rightarrow> unit result" where
  "fire self cb fulfilled h =
     (if cb \<notin> set (h_pending h) then ok h
      else
        let h1 = h\<lparr>h_pending := remove1 cb (h_pending h)\<rparr> in
        case cb of
          OnResume p \<Rightarrow> playWebAudio p h1
        | OnCanPlay p \<Rightarrow> playHtml5 self p h1
        | OnPromise p \<Rightarrow> if fulfilled then playThen self p h1 else playCatch self p h1
        | EmitPlay i \<Rightarrow> bindR (m_emit self ''play'' (Some i) [] h1) (\<lambda>_ h2. m_loadQueue self None h2)
        | EndedRetry r \<Rightarrow> m_ended self r h1)"

text \<open>The end timer of the id \<open>i\<close> fires.\<close>

definition fireTimer :: "methods \<Rightarrow> nat \<Rightarrow> howl \<Rightarrow> unit result" where
  "fireTimer self i h =
     (case h_endTimers h i of
        None \<Rightarrow> ok h
      | Some Fired \<Rightarrow> ok h
      | Some (Timeout r t) \<Rightarrow> m_ended self r (h\<lparr>h_endTimers := (h_endTimers h)(i := Some Fired)\<rparr>)
      | Some (EndedListener r) \<Rightarrow> m_ended self r (h\<lparr>h_endTimers := (h_endTimers h)(i := Some Fired)\<rparr>))"


subsection \<open>Loading\<close>

text \<open>
  The file extension of a source: the media type of a \<^verbatim>\<open>data:audio/...;\<close> URI
  (\<^verbatim>\<open>/^data:audio\/([^;,]+);/i\<close>), else what follows the last dot of the part before the
  first \<^verbatim>\<open>?\<close> (\<^verbatim>\<open>/\.([^.]+)$/\<close>); in lower case (of the letters A to Z).
\<close>

definition lower :: "char \<Rightarrow> char" where
  "lower c = (let n = (of_char c :: nat) in if 65 \<le> n \<and> n \<le> 90 then char_of (n + 32) else c)"

definition dataExt :: "string \<Rightarrow> string option" where
  "dataExt str =
     (if map lower (take 11 str) = ''data:audio/'' then
        (let rest = drop 11 str;
             e = takeWhile (\<lambda>c. c \<noteq> CHR '';'' \<and> c \<noteq> CHR '','') rest
         in if e \<noteq> [] \<and> take 1 (drop (length e) rest) = '';'' then Some e else None)
      else None)"

definition pathExt :: "string \<Rightarrow> string option" where
  "pathExt str =
     (let t = takeWhile (\<lambda>c. c \<noteq> CHR ''?'') str;
          e = rev (takeWhile (\<lambda>c. c \<noteq> CHR ''.'') (rev t))
      in if CHR ''.'' \<in> set t \<and> e \<noteq> [] then Some e else None)"

definition extOf :: "string \<Rightarrow> string option" where
  "extOf str =
     map_option (map lower) (case dataExt str of Some e \<Rightarrow> Some e | None \<Rightarrow> pathExt str)"

text \<open>
  The loop of \<^verbatim>\<open>load\<close> over the sources, from index \<open>i\<close>: the first source whose
  extension the backend supports, or nothing.
\<close>

fun loadScan :: "methods \<Rightarrow> nat \<Rightarrow> source list \<Rightarrow> howl \<Rightarrow> source option result" where
  "loadScan self i [] h = Inr (None, h)"
| "loadScan self i (c # cs) h =
     (if i < length (h_format h) \<and> h_format h ! i \<noteq> [] then
        (if g_codecs (h_howler h) (h_format h ! i) then Inr (Some c, h)
         else loadScan self (Suc i) cs h)
      else
        case c of
          NotString b \<Rightarrow>
            bindR (m_emit self ''loaderror'' None
                     ''Non-string found in selected audio sources - ignoring.'' h)
              (\<lambda>_ h1. loadScan self (Suc i) cs h1)
        | Str str \<Rightarrow>
            (case extOf str of
               Some e \<Rightarrow> if g_codecs (h_howler h) e then Inr (Some c, h)
                          else loadScan self (Suc i) cs h
             | None \<Rightarrow> loadScan self (Suc i) cs h))"

text \<open>\<^verbatim>\<open>!url\<close>.\<close>

fun falsySource :: "source option \<Rightarrow> bool" where
  "falsySource None = True"
| "falsySource (Some (Str str)) = (str = [])"
| "falsySource (Some (NotString b)) = (\<not> b)"

text \<open>
  \<^verbatim>\<open>load()\<close> as the methods after the class body have it (lines 284 to 362).  Decoding
  the buffer (\<^verbatim>\<open>loadBuffer\<close>) is the backend's work.
\<close>

definition load :: "methods \<Rightarrow> howl \<Rightarrow> unit result" where
  "load self h =
     (if g_noAudio (h_howler h) then m_emit self ''loaderror'' None ''No audio support.'' h
      else
        bindR (loadScan self 0 (h_src h) h)
          (\<lambda>url h1.
             if falsySource url
             then m_emit self ''loaderror'' None ''No codec support for selected audio sources.'' h1
             else
               let h2 = h1\<lparr>h_url := url, h_state := ''loading''\<rparr> in
               case (if g_https (h_howler h2)
                     then (case url of Some (Str u) \<Rightarrow> Some (take 5 u = ''http:'') | _ \<Rightarrow> None)
                     else Some False) of
                 None \<Rightarrow> Inl (TypeError, h2)
               | Some insecure \<Rightarrow>
                   let h3 = (if insecure then h2\<lparr>h_webAudio := False\<rparr> else h2);
                       (r, h4) = newSound h3
                   in ok (if h_webAudio h4 then call LoadBuffer h4 else h4)))"

text \<open>
  \<^verbatim>\<open>load()\<close> as the class body has it (lines 186 to 273).  It walks the sounds of the
  group; a sound without a format has no source string (\<^verbatim>\<open>SoundConfig\<close> has no \<^verbatim>\<open>src\<close>).
  When a sound is found the method goes on with \<^verbatim>\<open>url\<close> still \<^verbatim>\<open>null\<close> and with the
  undeclared \<^verbatim>\<open>soundFile\<close>, and throws.
\<close>

fun loadScanSounds :: "methods \<Rightarrow> nat list \<Rightarrow> howl \<Rightarrow> nat option result" where
  "loadScanSounds self [] h = Inr (None, h)"
| "loadScanSounds self (r # rs) h =
     (case s_format (h_heap h r) of
        Some e \<Rightarrow>
          if e \<noteq> [] \<and> g_codecs (h_howler h) e then Inr (Some r, h)
          else if e \<noteq> [] then loadScanSounds self rs h
          else bindR (m_emit self ''loaderror'' None
                        ''Non-string found in selected audio sources - ignoring.'' h)
                 (\<lambda>_ h1. loadScanSounds self rs h1)
      | None \<Rightarrow>
          bindR (m_emit self ''loaderror'' None
                   ''Non-string found in selected audio sources - ignoring.'' h)
            (\<lambda>_ h1. loadScanSounds self rs h1))"

definition loadSounds :: "methods \<Rightarrow> howl \<Rightarrow> unit result" where
  "loadSounds self h =
     (if g_noAudio (h_howler h) then m_emit self ''loaderror'' None ''No audio support.'' h
      else
        bindR (loadScanSounds self (h_sounds h) h)
          (\<lambda>found h1.
             case found of
               None \<Rightarrow> m_emit self ''loaderror'' None ''No codec support for selected audio sources.'' h1
             | Some r \<Rightarrow>
                 let h2 = h1\<lparr>h_url := None, h_state := ''loading''\<rparr>
                 in if g_https (h_howler h2) then Inl (TypeError, h2)
                    else Inl (ReferenceError, h2)))"

subsection \<open>The methods, tied together\<close>

text \<open>
  \<open>howlMethods other n\<close> are the methods with calls through \<^verbatim>\<open>self\<close> nested at most
  \<open>n\<close> deep; \<open>other\<close> runs the queued calls of the methods that are not embedded.
\<close>

primrec howlMethods :: "(task \<Rightarrow> howl \<Rightarrow> unit result) \<Rightarrow> nat \<Rightarrow> methods" where
  "howlMethods other 0 =
     \<lparr>m_emit = (\<lambda>e i m h. Inl (OutOfFuel, h)),
      m_loadQueue = (\<lambda>e h. Inl (OutOfFuel, h)),
      m_play = (\<lambda>a b h. Inl (OutOfFuel, h)),
      m_stop = (\<lambda>i b h. Inl (OutOfFuel, h)),
      m_volume = (\<lambda>v i b h. Inl (OutOfFuel, h)),
      m_fade = (\<lambda>f t l i h. Inl (OutOfFuel, h)),
      m_stopFade = (\<lambda>i h. Inl (OutOfFuel, h)),
      m_ended = (\<lambda>r h. Inl (OutOfFuel, h)),
      m_other = other\<rparr>"
| "howlMethods other (Suc n) =
     (let self = howlMethods other n in
      \<lparr>m_emit = emit self,
       m_loadQueue = loadQueue self,
       m_play = play self,
       m_stop = stop self,
       m_volume = volume self,
       m_fade = fade self,
       m_stopFade = stopFade self,
       m_ended = ended self,
       m_other = other\<rparr>)"

subsection \<open>Concrete groups\<close>

text \<open>
  Sounds and groups for the closed examples below: a sound is given by its id and its
  \<^verbatim>\<open>_paused\<close> and \<^verbatim>\<open>_ended\<close> flags, a group by its state, pool size, backend and sounds
  (the sound at address \<open>k\<close> is the \<open>k\<close>-th of the list).
\<close>

definition exConfig :: sound_config where
  "exConfig = \<lparr>c_muted = False, c_loop = False, c_volume = 1, c_rate = 1, c_seek = 0,
     c_rateSeek = 0, c_paused = True, c_ended = True, c_sprite = Some ''__default'',
     c_format = None\<rparr>"

definition exSound :: "nat \<Rightarrow> bool \<Rightarrow> bool \<Rightarrow> sound" where
  "exSound i p e = \<lparr>s_id = i, s_muted = False, s_loop = False, s_volume = 1, s_rate = 1,
     s_seek = 0, s_rateSeek = 0, s_paused = p, s_ended = e, s_sprite = Some ''__default'',
     s_format = None, s_start = 0, s_stop = 0, s_playStart = 0, s_interval = None,
     s_fadeTo = None, s_node = Some (freshNode 1), s_configCopy = exConfig\<rparr>"

definition exHowler :: howler where
  "exHowler = \<lparr>g_noAudio = False, g_codecs = (\<lambda>e. e = ''mp3''), g_muted = False,
     g_volume = 1, g_running = True, g_now = 0, g_date = 0, g_https = False,
     g_ejecta = False, g_cocoon = False, g_ie = False\<rparr>"

definition exHowl :: "string \<Rightarrow> nat \<Rightarrow> bool \<Rightarrow> sound list \<Rightarrow> howl" where
  "exHowl st pool web ss = \<lparr>h_state = st, h_sounds = [0 ..< length ss],
     h_heap = (\<lambda>r. if r < length ss then ss ! r else exSound 0 True True),
     h_next = length ss, h_queue = [], h_playLock = False, h_webAudio = web,
     h_muted = False, h_loop = False, h_volume = 1, h_rate = 1, h_pool = pool,
     h_sprite = [''__default'' \<mapsto> (0, 1000, False)], h_endTimers = Map.empty,
     h_pending = [], h_src = [Str ''a.mp3''], h_format = [], h_url = Some (Str ''a.mp3''),
     h_soundConfig = exConfig, h_howler = exHowler, h_emitted = [], h_backend = []\<rparr>"

text \<open>A pool of size 1 holding two ended sounds and two playing ones.\<close>

definition poolExample :: howl where
  "poolExample = exHowl ''loaded'' 1 True
     [exSound 1 True True, exSound 2 True True, exSound 3 False False, exSound 4 False False]"




text \<open>A loaded group with one sound, of id 1 and volume 0.5, on either backend.\<close>

definition fadeExample :: "bool \<Rightarrow> howl" where
  "fadeExample web = exHowl ''loaded'' 5 web [(exSound 1 False False)\<lparr>s_volume := 1 / 2\<rparr>]"


definition candidateExt :: "string list \<Rightarrow> nat \<Rightarrow> source \<Rightarrow> string option" where
  "candidateExt fmt i c =
     (if i < length fmt \<and> fmt ! i \<noteq> [] then Some (fmt ! i)
      else case c of Str str \<Rightarrow> extOf str | NotString b \<Rightarrow> None)"

fun unsupported :: "(string \<Rightarrow> bool) \<Rightarrow> string list \<Rightarrow> nat \<Rightarrow> source list \<Rightarrow> bool" where
  "unsupported codecs fmt i [] = True"
| "unsupported codecs fmt i (c # cs) =
     ((case candidateExt fmt i c of None \<Rightarrow> True | Some e \<Rightarrow> \<not> codecs e)
      \<and> unsupported codecs fmt (Suc i) cs)"

fun nonStrings :: "string list \<Rightarrow> nat \<Rightarrow> source list \<Rightarrow> nat" where
  "nonStrings fmt i [] = 0"
| "nonStrings fmt i (c # cs) =
     (if \<not> (i < length fmt \<and> fmt ! i \<noteq> []) \<and> (case c of NotString b \<Rightarrow> True | Str s \<Rightarrow> False)
      then Suc (nonStrings fmt (Suc i) cs) else nonStrings fmt (Suc i) cs)"

text \<open>The three \<^verbatim>\<open>loaderror\<close> events of \<^verbatim>\<open>load\<close>.\<close>

definition nonStringEvent :: "string \<times> nat option \<times> string" where
  "nonStringEvent = (''loaderror'', None, ''Non-string found in selected audio sources - ignoring.'')"

definition noCodecEvent :: "string \<times> nat option \<times> string" where
  "noCodecEvent = (''loaderror'', None, ''No codec support for selected audio sources.'')"

definition noAudioEvent :: "string \<times> nat option \<times> string" where
  "noAudioEvent = (''loaderror'', None, ''No audio support.'')"

definition unsupportedFormat :: "(string \<Rightarrow> bool) \<Rightarrow> string option \<Rightarrow> bool" where
  "unsupportedFormat codecs f = (case f of None \<Rightarrow> True | Some e \<Rightarrow> e = [] \<or> \<not> codecs e)"

definition formatless :: "string option \<Rightarrow> bool" where
  "formatless f = (case f of None \<Rightarrow> True | Some e \<Rightarrow> e = [])"

text \<open>A group that is not loaded, with the sources \<^verbatim>\<open>a.xyz\<close>, a value that is not a string, and
  \<^verbatim>\<open>b.OGG?x=1\<close>, and one sound of format \<^verbatim>\<open>xyz\<close>; the backend supports \<^verbatim>\<open>mp3\<close> only.  The
  second group is the same where no audio is available at all.\<close>

definition noCodecExample :: howl where
  "noCodecExample =
     (exHowl ''unloaded'' 5 True [(exSound 1 True True)\<lparr>s_format := Some ''xyz''\<rparr>])
       \<lparr>h_src := [Str ''a.xyz'', NotString True, Str ''b.OGG?x=1'']\<rparr>"

definition noAudioExample :: howl where
  "noAudioExample = noCodecExample\<lparr>h_howler := (h_howler noCodecExample)\<lparr>g_noAudio := True\<rparr>\<rparr>"

text \<open>\<open>quiet h h'\<close>: from \<open>h\<close> to \<open>h'\<close> no playback was started, no event was emitted, the
  array of sounds is the same and no fade was started or stopped.\<close>

definition quiet :: "howl \<Rightarrow> howl \<Rightarrow> bool" where
  "quiet h h' =
     (filter isStart (h_backend h') = filter isStart (h_backend h)
      \<and> h_emitted h' = h_emitted h
      \<and> h_sounds h' = h_sounds h
      \<and> (\<lambda>q. s_interval (h_heap h' q)) = (\<lambda>q. s_interval (h_heap h q)))"




text \<open>A loaded HTML5 group with three sounds that have ended; only the node of the sound with
  id 3 is ready to play.  \<open>racePlay r\<close> is what \<^verbatim>\<open>play\<close> computes for the sound at
  address \<open>r\<close> of this group.\<close>

definition raceExample :: howl where
  "raceExample = exHowl ''loaded'' 5 False
     [exSound 1 True True,
      exSound 2 True True,
      (exSound 3 True True)\<lparr>s_node := Some ((freshNode 1)\<lparr>n_readyState := 4\<rparr>)\<rparr>]"

definition racePlay :: "nat \<Rightarrow> pend" where
  "racePlay r = \<lparr>p_sound = r, p_sprite = ''__default'', p_seek = 0, p_duration = 1,
     p_timeout = Some 1000, p_start = 0, p_stop = 1, p_internal = False\<rparr>"

section \<open>Properties\<close>

subsection \<open>The pool\<close>

lemma heap_drainLoop: "h_heap (drainLoop limit count k h) = h_heap h"
  by (induction limit count k h rule: drainLoop.induct) (simp_all add: Let_def)

lemma pool_drainLoop: "h_pool (drainLoop limit count k h) = h_pool h"
  by (induction limit count k h rule: drainLoop.induct) (simp_all add: Let_def)

text \<open>
  The loop of \<^verbatim>\<open>_drain\<close>, started at index \<open>k - 1\<close> when no ended sound stands at index
  \<open>k\<close> or above and \<open>count\<close> is the number of ended sounds: it keeps the oldest \<open>limit\<close>
  ended sounds and every sound that has not ended, in their order.
\<close>

lemma sounds_drainLoop:
  assumes "k \<le> length (h_sounds h)"
      and "count = length (filter (\<lambda>r. s_ended (h_heap h r)) (take k (h_sounds h)))"
      and "filter (\<lambda>r. s_ended (h_heap h r)) (drop k (h_sounds h)) = []"
  shows "filter (\<lambda>r. s_ended (h_heap h r)) (h_sounds (drainLoop limit count k h))
           = take limit (filter (\<lambda>r. s_ended (h_heap h r)) (h_sounds h))
       \<and> filter (\<lambda>r. \<not> s_ended (h_heap h r)) (h_sounds (drainLoop limit count k h))
           = filter (\<lambda>r. \<not> s_ended (h_heap h r)) (h_sounds h)
       \<and> subseq (h_sounds (drainLoop limit count k h)) (h_sounds h)"
  using assms
proof (induction limit count k h rule: drainLoop.induct)
  case (1 limit count h)
  then show ?case by simp
next
  case (2 limit count i h)
  let ?E = "\<lambda>r. s_ended (h_heap h r)"
  let ?xs = "h_sounds h"
  have split: "?xs = take i ?xs @ (?xs ! i) # drop (Suc i) ?xs"
    using "2.prems"(1) by (simp add: id_take_nth_drop)
  have all: "filter ?E ?xs = filter ?E (take (Suc i) ?xs)"
    using "2.prems"(3) by (metis append_Nil2 append_take_drop_id filter_append)
  show ?case
  proof (cases "count \<le> limit")
    case True
    then show ?thesis using "2.prems"(2) all by simp
  next
    case False
    show ?thesis
    proof (cases "?E (?xs ! i)")
      case True
      let ?h' = "h\<lparr>h_backend :=
                  (if h_webAudio h \<and> s_node (h_heap h (?xs ! i)) \<noteq> None
                   then h_backend h @ [Disconnect (?xs ! i)] else h_backend h),
               h_sounds := take i ?xs @ drop (Suc i) ?xs\<rparr>"
      have tk: "take (Suc i) ?xs = take i ?xs @ [?xs ! i]"
        using "2.prems"(1) by (simp add: take_Suc_conv_app_nth)
      have cnt: "count = Suc (length (filter ?E (take i ?xs)))"
        using "2.prems"(2) True tk by simp
      have d: "filter ?E (drop (Suc i) ?xs) = []"
        using "2.prems"(3) by simp
      have ih: "filter ?E (h_sounds (drainLoop limit (count - 1) i ?h'))
           = take limit (filter ?E (h_sounds ?h'))
       \<and> filter (\<lambda>r. \<not> ?E r) (h_sounds (drainLoop limit (count - 1) i ?h'))
           = filter (\<lambda>r. \<not> ?E r) (h_sounds ?h')
       \<and> subseq (h_sounds (drainLoop limit (count - 1) i ?h')) (h_sounds ?h')"
        using "2.IH"(1)[OF False refl True] "2.prems"(1) cnt d by simp
      have e1: "filter ?E (h_sounds ?h') = filter ?E (take i ?xs)" using d by simp
      have e2: "filter ?E ?xs = filter ?E (take i ?xs) @ [?xs ! i]"
        using all tk True by simp
      have e3: "take limit (filter ?E ?xs) = take limit (filter ?E (take i ?xs))"
        using e2 cnt False by simp
      have n1: "filter (\<lambda>r. \<not> ?E r) (h_sounds ?h') = filter (\<lambda>r. \<not> ?E r) ?xs"
        using True by (subst (2) split) simp
      have s1: "subseq (h_sounds ?h') ?xs"
        by (subst (2) split) (simp add: subseq_Cons' list_emb_append_mono)
      have step: "drainLoop limit count (Suc i) h = drainLoop limit (count - 1) i ?h'"
        using False True by (simp add: Let_def)
      have s2: "subseq (h_sounds (drainLoop limit (count - 1) i ?h')) ?xs"
        using ih s1 subseq_order.trans by blast
      show ?thesis
        unfolding step using ih e1 e3 n1 s2 by simp
    next
      case F2: False
      have tk: "take (Suc i) ?xs = take i ?xs @ [?xs ! i]"
        using "2.prems"(1) by (simp add: take_Suc_conv_app_nth)
      have d: "filter ?E (drop i ?xs) = []"
        using "2.prems"(3) F2 "2.prems"(1) by (simp add: Cons_nth_drop_Suc[symmetric])
      have cnt: "count = length (filter ?E (take i ?xs))"
        using "2.prems"(2) F2 tk by simp
      have step: "drainLoop limit count (Suc i) h = drainLoop limit count i h"
        using False F2 by (simp add: Let_def)
      show ?thesis
        unfolding step using "2.IH"(2)[OF False refl F2] "2.prems"(1) cnt d by simp
    qed
  qed
qed

lemma drain_sounds:
  "filter (\<lambda>r. s_ended (h_heap h r)) (h_sounds (drain h))
     = take (h_pool h) (filter (\<lambda>r. s_ended (h_heap h r)) (h_sounds h))
   \<and> filter (\<lambda>r. \<not> s_ended (h_heap h r)) (h_sounds (drain h))
     = filter (\<lambda>r. \<not> s_ended (h_heap h r)) (h_sounds h)
   \<and> subseq (h_sounds (drain h)) (h_sounds h)"
proof (cases "length (h_sounds h) < h_pool h")
  case True
  have "length (filter (\<lambda>r. s_ended (h_heap h r)) (h_sounds h)) \<le> length (h_sounds h)"
    by (rule length_filter_le)
  with True have "length (filter (\<lambda>r. s_ended (h_heap h r)) (h_sounds h)) \<le> h_pool h"
    by linarith
  with True show ?thesis by (simp add: drain_def Let_def)
next
  case False
  then show ?thesis
    using sounds_drainLoop [of "length (h_sounds h)" h _ "h_pool h"]
    by (simp add: drain_def Let_def)
qed

text \<open>
  C4 (as amended).  \<^verbatim>\<open>_drain\<close> bounds the \<^emph>\<open>ended\<close> sounds, not the live ones: after it
  the ended sounds of the group are the oldest \<open>pool\<close> ended sounds it had (the newest
  ended sounds are removed first, and removal stops as soon as the number of ended sounds
  is at most the pool size); every sound that has not ended is kept, in order; no sound is
  changed.  So at most \<open>pool\<close> ended sounds are retained, and the live count after the
  drain is at most the pool size plus the number of sounds that have not ended.
\<close>

theorem drain_bounds_ended_sounds:
  "filter (\<lambda>r. s_ended (h_heap h r)) (h_sounds (drain h))
     = take (h_pool h) (filter (\<lambda>r. s_ended (h_heap h r)) (h_sounds h))
   \<and> filter (\<lambda>r. \<not> s_ended (h_heap h r)) (h_sounds (drain h))
     = filter (\<lambda>r. \<not> s_ended (h_heap h r)) (h_sounds h)
   \<and> subseq (h_sounds (drain h)) (h_sounds h)
   \<and> h_heap (drain h) = h_heap h
   \<and> length (filter (\<lambda>r. s_ended (h_heap (drain h) r)) (h_sounds (drain h))) \<le> h_pool h
   \<and> length (h_sounds (drain h))
       \<le> h_pool h + length (filter (\<lambda>r. \<not> s_ended (h_heap h r)) (h_sounds h))"
proof -
  let ?E = "\<lambda>r. s_ended (h_heap h r)"
  have hp: "h_heap (drain h) = h_heap h"
    by (simp add: drain_def Let_def heap_drainLoop)
  have le: "length (filter ?E (h_sounds (drain h))) \<le> h_pool h"
    using drain_sounds [of h] by simp
  have "length (h_sounds (drain h))
          = length (filter ?E (h_sounds (drain h)))
            + length (filter (\<lambda>r. \<not> ?E r) (h_sounds (drain h)))"
    by (rule sum_length_filter_compl [symmetric])
  then have "length (h_sounds (drain h))
          \<le> h_pool h + length (filter (\<lambda>r. \<not> ?E r) (h_sounds h))"
    using le drain_sounds [of h] by simp
  then show ?thesis using drain_sounds [of h] hp le by simp
qed

text \<open>
  C4 as stated fails.  In a pool of size 1 with two ended and two playing sounds the drain
  removes one ended sound and stops: three sounds stay live, which is more than
  \<open>max pool playing = 2\<close>, while the live count is still above the pool size and an ended
  sound remains.
\<close>

theorem drain_live_count_counterexample:
  "h_sounds (drain poolExample) = [0, 2, 3]
   \<and> h_pool (drain poolExample) = 1
   \<and> filter (\<lambda>r. \<not> s_paused (h_heap (drain poolExample) r)) (h_sounds (drain poolExample)) = [2, 3]
   \<and> filter (\<lambda>r. s_ended (h_heap (drain poolExample) r)) (h_sounds (drain poolExample)) = [0]
   \<and> \<not> length (h_sounds (drain poolExample))
         \<le> max (h_pool (drain poolExample))
             (length (filter (\<lambda>r. \<not> s_paused (h_heap (drain poolExample) r))
                 (h_sounds (drain poolExample))))"
  by code_simp

subsection \<open>Resolving the targets of a control call\<close>

text \<open>With the id 0, which no sound has, \<^verbatim>\<open>_getSoundIds\<close> returns \<^verbatim>\<open>[0]\<close>.\<close>

lemma getSoundIds_zero: "getSoundIds h (Some 0) = [Some 0]"
  by (simp add: getSoundIds_def)

text \<open>Ids are array lengths after a push: never 0.\<close>

lemma register_positive: "fst (register h r) = Suc (length (h_sounds h))"
  by (simp add: register_def)


subsection \<open>The methods at a given depth\<close>

text \<open>
A call through \<^verbatim>\<open>self\<close> runs the body of the method one level further down.
\<close>

lemma methods_Suc [simp]:
  "m_emit (howlMethods other (Suc n)) = emit (howlMethods other n)"
  "m_loadQueue (howlMethods other (Suc n)) = loadQueue (howlMethods other n)"
  "m_play (howlMethods other (Suc n)) = play (howlMethods other n)"
  "m_stop (howlMethods other (Suc n)) = stop (howlMethods other n)"
  "m_volume (howlMethods other (Suc n)) = volume (howlMethods other n)"
  "m_fade (howlMethods other (Suc n)) = fade (howlMethods other n)"
  "m_stopFade (howlMethods other (Suc n)) = stopFade (howlMethods other n)"
  "m_ended (howlMethods other (Suc n)) = ended (howlMethods other n)"
  "m_other (howlMethods other n) = other"
  by (cases n; simp add: Let_def)+

declare howlMethods.simps [simp del]

lemma bindR_simps [simp]:
  "bindR (Inr (x, h)) f = f x h"
  "bindR (Inl e) f = Inl e"
  "bindR (ok h) g = g () h"
  by (simp_all add: bindR_def ok_def)

lemma bindR_ok_right [simp]: "bindR m (\<lambda>_ h. ok h) = m" "bindR m (\<lambda>_. ok) = m"
  by (auto simp: bindR_def ok_def split: sum.splits)

subsection \<open>Playing an unknown sprite\<close>




subsection \<open>Playing before the load has completed\<close>












subsection \<open>The queue\<close>




subsection \<open>Fading one sound\<close>

text \<open>
  C6 fails on the code.  In a loaded group whose only sound has the id 1 and the volume
  0.5, \<^verbatim>\<open>fade(0, 1, 100, 1)\<close> changes nothing: \<^verbatim>\<open>_getSoundIds(1)\<close> gives \<^verbatim>\<open>[1]\<close> and
  \<^verbatim>\<open>_soundById(1)\<close> looks at index 1, where there is no sound.  No interval is started, so
  no tick ever changes the volume; the volume stays 0.5 and no \<^verbatim>\<open>fade\<close> event is emitted.
\<close>

theorem fade_misses_the_instance:
  "fade (howlMethods other (Suc n)) 0 1 100 (Some 1) (fadeExample web) = Inr ((), fadeExample web)
   \<and> s_id (h_heap (fadeExample web) 0) = 1
   \<and> h_sounds (fadeExample web) = [0]
   \<and> s_interval (h_heap (fadeExample web) 0) = None
   \<and> fadeTick self 0 (fadeExample web) = Inr ((), fadeExample web)
   \<and> s_volume (h_heap (fadeExample web) 0) = 1 / 2
   \<and> h_emitted (fadeExample web) = []"
proof -
  have a: "h_state (fadeExample web) = ''loaded''" "\<not> h_playLock (fadeExample web)"
          "h_sounds (fadeExample web) = [0]" "s_id (h_heap (fadeExample web) 0) = 1"
          "s_interval (h_heap (fadeExample web) 0) = None"
          "s_volume (h_heap (fadeExample web) 0) = 1 / 2" "h_emitted (fadeExample web) = []"
    by (simp_all add: fadeExample_def exHowl_def exSound_def)
  have v: "volume (howlMethods other n) 0 (Some 1) False (fadeExample web) = Inr (RSelf, fadeExample web)"
    using a by (simp add: volume_def getSoundIds_def)
  have f: "fade (howlMethods other (Suc n)) 0 1 100 (Some 1) (fadeExample web) = Inr ((), fadeExample web)"
    using a v by (simp add: fade_def methods_Suc getSoundIds_def ok_def)
  have t: "fadeTick self 0 (fadeExample web) = Inr ((), fadeExample web)"
    using a by (simp add: fadeTick_def ok_def)
  show ?thesis using a f t by simp
qed

text \<open>The same on the Web Audio backend, with the methods one level deep.\<close>

theorem fade_misses_the_instance_witness:
  "fade (howlMethods (\<lambda>t. ok) (Suc 0)) 0 1 100 (Some 1) (fadeExample True) = Inr ((), fadeExample True)
   \<and> fadeTick (howlMethods (\<lambda>t. ok) 0) 0 (fadeExample True) = Inr ((), fadeExample True)
   \<and> s_volume (h_heap (fadeExample True) 0) = 1 / 2
   \<and> h_emitted (fadeExample True) = []"
  using fade_misses_the_instance [of "\<lambda>t. ok" 0 True "howlMethods (\<lambda>t. ok) 0"] by simp

subsection \<open>Ids of sounds\<close>


text \<open>
  The extension the loop of \<^verbatim>\<open>load\<close> computes for the source at index \<open>i\<close> (from the
  formats \<open>fmt\<close>, else from the source itself), and the statement that no source from
  index \<open>i\<close> on has an extension the backend supports.
\<close>

text \<open>The sources that are not strings and have no format: each costs a \<^verbatim>\<open>loaderror\<close>.\<close>

text \<open>
  The same for the sounds the class-body \<^verbatim>\<open>load\<close> walks: a format that is missing,
  empty or not supported; \<open>formatless\<close> sounds cost a \<^verbatim>\<open>loaderror\<close> each.
\<close>

subsection \<open>Loading without a supported source\<close>

text \<open>
The events of the queued tasks are the names of the eight methods that queue.
\<close>

lemma task_event_cases:
  "task_event t \<in> {''play'', ''pause'', ''stop'', ''mute'', ''volume'', ''fade'', ''rate'', ''seek''}"
  by (cases t) simp_all

text \<open>
An event that is not one of them never moves the queue.
\<close>

lemma loadQueue_other_event:
  assumes "e \<notin> {''play'', ''pause'', ''stop'', ''mute'', ''volume'', ''fade'', ''rate'', ''seek''}"
      and "e \<noteq> []"
  shows "loadQueue self (Some e) h = ok h"
proof (cases "h_queue h")
  case Nil
  then show ?thesis by (simp add: loadQueue_def)
next
  case (Cons t rest)
  have "task_event t \<noteq> e" using task_event_cases [of t] assms(1) by auto
  then show ?thesis using Cons assms(2) by (simp add: loadQueue_def)
qed

lemma emit_other_event:
  assumes "e \<notin> {''play'', ''pause'', ''stop'', ''mute'', ''volume'', ''fade'', ''rate'', ''seek''}"
      and "e \<noteq> []"
  shows "emit (howlMethods other (Suc n)) e i msg h = ok (h\<lparr>h_emitted := h_emitted h @ [(e, i, msg)]\<rparr>)"
  using loadQueue_other_event [OF assms] by (simp add: emit_def)

lemma emit_loaderror:
  "emit (howlMethods other (Suc n)) ''loaderror'' i msg h
     = ok (h\<lparr>h_emitted := h_emitted h @ [(''loaderror'', i, msg)]\<rparr>)"
  by (rule emit_other_event) simp_all

lemma loadScan_Cons:
  "loadScan self i (c # cs) h =
     (case candidateExt (h_format h) i c of
        Some e \<Rightarrow> if g_codecs (h_howler h) e then Inr (Some c, h) else loadScan self (Suc i) cs h
      | None \<Rightarrow>
          if \<not> (i < length (h_format h) \<and> h_format h ! i \<noteq> []) \<and> (case c of NotString b \<Rightarrow> True | Str s \<Rightarrow> False)
          then bindR (m_emit self ''loaderror'' None
                        ''Non-string found in selected audio sources - ignoring.'' h)
                 (\<lambda>_ h1. loadScan self (Suc i) cs h1)
          else loadScan self (Suc i) cs h)"
proof (cases "i < length (h_format h) \<and> h_format h ! i \<noteq> []")
  case True
  then show ?thesis by (simp add: candidateExt_def)
next
  case False
  then have f: "(i < length (h_format h) \<and> h_format h ! i \<noteq> []) = False" by simp
  show ?thesis
    by (cases c; cases "extOf (case c of Str s \<Rightarrow> s | _ \<Rightarrow> [])") (simp_all add: candidateExt_def f)
qed

text \<open>
  When no source is supported, the loop of \<^verbatim>\<open>load\<close> finds nothing; it has emitted one
  \<^verbatim>\<open>loaderror\<close> for each source that is not a string.
\<close>

lemma loadScan_unsupported:
  assumes "unsupported (g_codecs (h_howler h)) (h_format h) i cs"
  shows "loadScan (howlMethods other (Suc (Suc n))) i cs h
           = Inr (None, h\<lparr>h_emitted := h_emitted h @ replicate (nonStrings (h_format h) i cs) nonStringEvent\<rparr>)"
  using assms
proof (induction cs arbitrary: i h)
  case Nil
  then show ?case by simp
next
  case (Cons c cs)
  let ?h' = "h\<lparr>h_emitted := h_emitted h @ [nonStringEvent]\<rparr>"
  let ?P = "\<not> (i < length (h_format h) \<and> h_format h ! i \<noteq> []) \<and> (case c of NotString b \<Rightarrow> True | Str s \<Rightarrow> False)"
  have u: "unsupported (g_codecs (h_howler h)) (h_format h) (Suc i) cs" using Cons.prems by simp
  have u': "unsupported (g_codecs (h_howler ?h')) (h_format ?h') (Suc i) cs" using u by simp
  have c: "case candidateExt (h_format h) i c of None \<Rightarrow> True | Some e \<Rightarrow> \<not> g_codecs (h_howler h) e"
    using Cons.prems by simp
  show ?case
  proof (cases ?P)
    case True
    then have none: "candidateExt (h_format h) i c = None"
      by (cases c) (auto simp: candidateExt_def)
    have step: "loadScan (howlMethods other (Suc (Suc n))) i (c # cs) h
                    = loadScan (howlMethods other (Suc (Suc n))) (Suc i) cs ?h'"
      by (simp only: loadScan_Cons none option.case if_P [OF True] methods_Suc emit_loaderror
            bindR_simps nonStringEvent_def)
    have cnt: "nonStrings (h_format h) i (c # cs) = Suc (nonStrings (h_format h) (Suc i) cs)"
      using True by simp
    show ?thesis
      unfolding step cnt using Cons.IH [OF u'] by simp
  next
    case False
    have step: "loadScan (howlMethods other (Suc (Suc n))) i (c # cs) h
                    = loadScan (howlMethods other (Suc (Suc n))) (Suc i) cs h"
    proof (cases "candidateExt (h_format h) i c")
      case None
      show ?thesis by (simp only: loadScan_Cons None option.case if_not_P [OF False])
    next
      case (Some e)
      then have "\<not> g_codecs (h_howler h) e" using c by simp
      then show ?thesis by (simp only: loadScan_Cons Some option.case if_False)
    qed
    have cnt: "nonStrings (h_format h) i (c # cs) = nonStrings (h_format h) (Suc i) cs" using False by simp
    show ?thesis unfolding step cnt by (rule Cons.IH [OF u])
  qed
qed

lemma loadScanSounds_unsupported:
  assumes "list_all (\<lambda>r. unsupportedFormat (g_codecs (h_howler h)) (s_format (h_heap h r))) rs"
  shows "loadScanSounds (howlMethods other (Suc (Suc n))) rs h
           = Inr (None, h\<lparr>h_emitted := h_emitted h
                   @ replicate (length (filter (\<lambda>r. formatless (s_format (h_heap h r))) rs)) nonStringEvent\<rparr>)"
  using assms
proof (induction rs arbitrary: h)
  case Nil
  then show ?case by simp
next
  case (Cons r rs)
  let ?h' = "h\<lparr>h_emitted := h_emitted h @ [nonStringEvent]\<rparr>"
  have u: "list_all (\<lambda>r. unsupportedFormat (g_codecs (h_howler h)) (s_format (h_heap h r))) rs"
    using Cons.prems by simp
  have u': "list_all (\<lambda>r. unsupportedFormat (g_codecs (h_howler ?h')) (s_format (h_heap ?h' r))) rs"
    using u by simp
  have r: "unsupportedFormat (g_codecs (h_howler h)) (s_format (h_heap h r))"
    using Cons.prems by simp
  show ?case
  proof (cases "formatless (s_format (h_heap h r))")
    case True
    then have step: "loadScanSounds (howlMethods other (Suc (Suc n))) (r # rs) h
                       = loadScanSounds (howlMethods other (Suc (Suc n))) rs ?h'"
      by (auto simp: formatless_def emit_loaderror nonStringEvent_def split: option.splits)
    show ?thesis unfolding step using Cons.IH [OF u'] True by simp
  next
    case False
    then have step: "loadScanSounds (howlMethods other (Suc (Suc n))) (r # rs) h
                       = loadScanSounds (howlMethods other (Suc (Suc n))) rs h"
      using r by (auto simp: formatless_def unsupportedFormat_def split: option.splits)
    show ?thesis unfolding step using Cons.IH [OF u] False by simp
  qed
qed

text \<open>
  C8 (as amended).  When no source candidate has an extension the backend supports,
  \<^verbatim>\<open>load\<close> (in both versions of the method) returns after emitting \<^verbatim>\<open>loaderror\<close> and
  changes nothing else: the state stays what it was (\<^verbatim>\<open>unloaded\<close> stays \<^verbatim>\<open>unloaded\<close>), no
  sound is made, nothing is queued or scheduled, so nothing retries the load.  The last
  event carries the reason "No codec support for selected audio sources." when audio is
  available; when \<^verbatim>\<open>Howler.noAudio\<close> is set the method returns before it looks at the
  sources and the reason is "No audio support.".
\<close>

theorem load_without_supported_source:
  assumes "unsupported (g_codecs (h_howler h)) (h_format h) 0 (h_src h)"
      and "list_all (\<lambda>r. unsupportedFormat (g_codecs (h_howler h)) (s_format (h_heap h r))) (h_sounds h)"
  shows "load (howlMethods other (Suc (Suc n))) h
           = Inr ((), h\<lparr>h_emitted := h_emitted h @
                  (if g_noAudio (h_howler h) then [noAudioEvent]
                   else replicate (nonStrings (h_format h) 0 (h_src h)) nonStringEvent @ [noCodecEvent])\<rparr>)
       \<and> loadSounds (howlMethods other (Suc (Suc n))) h
           = Inr ((), h\<lparr>h_emitted := h_emitted h @
                  (if g_noAudio (h_howler h) then [noAudioEvent]
                   else replicate (length (filter (\<lambda>r. formatless (s_format (h_heap h r))) (h_sounds h)))
                          nonStringEvent @ [noCodecEvent])\<rparr>)"
proof (cases "g_noAudio (h_howler h)")
  case True
  then show ?thesis
    by (simp add: load_def loadSounds_def emit_loaderror noAudioEvent_def ok_def)
next
  case False
  have 1: "load (howlMethods other (Suc (Suc n))) h
           = Inr ((), h\<lparr>h_emitted := h_emitted h @
                  replicate (nonStrings (h_format h) 0 (h_src h)) nonStringEvent @ [noCodecEvent]\<rparr>)"
    using False
    by (simp add: load_def loadScan_unsupported [OF assms(1)] emit_loaderror noCodecEvent_def ok_def)
  have 2: "loadSounds (howlMethods other (Suc (Suc n))) h
           = Inr ((), h\<lparr>h_emitted := h_emitted h @
                  replicate (length (filter (\<lambda>r. formatless (s_format (h_heap h r))) (h_sounds h)))
                          nonStringEvent @ [noCodecEvent]\<rparr>)"
    using False
    by (simp add: loadSounds_def loadScanSounds_unsupported [OF assms(2)] emit_loaderror
          noCodecEvent_def ok_def)
  show ?thesis using False 1 2 by simp
qed

text \<open>
  The amended C8 at a group with three unsupported sources, one of them not a string.
\<close>

theorem load_without_supported_source_witness:
  "unsupported (g_codecs (h_howler noCodecExample)) (h_format noCodecExample) 0 (h_src noCodecExample)
   \<and> list_all (\<lambda>r. unsupportedFormat (g_codecs (h_howler noCodecExample)) (s_format (h_heap noCodecExample r)))
        (h_sounds noCodecExample)
   \<and> load (howlMethods (\<lambda>t. ok) 2) noCodecExample
       = Inr ((), noCodecExample\<lparr>h_emitted := [nonStringEvent, noCodecEvent]\<rparr>)
   \<and> loadSounds (howlMethods (\<lambda>t. ok) 2) noCodecExample
       = Inr ((), noCodecExample\<lparr>h_emitted := [noCodecEvent]\<rparr>)
   \<and> h_state noCodecExample = ''unloaded''"
proof -
  have a: "unsupported (g_codecs (h_howler noCodecExample)) (h_format noCodecExample) 0 (h_src noCodecExample)"
    by code_simp
  have b: "list_all (\<lambda>r. unsupportedFormat (g_codecs (h_howler noCodecExample)) (s_format (h_heap noCodecExample r)))
        (h_sounds noCodecExample)"
    by code_simp
  have c: "\<not> g_noAudio (h_howler noCodecExample)" "h_emitted noCodecExample = []"
          "nonStrings (h_format noCodecExample) 0 (h_src noCodecExample) = 1"
          "length (filter (\<lambda>r. formatless (s_format (h_heap noCodecExample r))) (h_sounds noCodecExample)) = 0"
          "h_state noCodecExample = ''unloaded''"
    by code_simp+
  have two: "Suc (Suc 0) = 2" by simp
  show ?thesis
    using load_without_supported_source [OF a b, of "\<lambda>t. ok" 0] a b c
    by (simp add: two)
qed

text \<open>
  C8 as stated fails when no audio is available: the sources are unsupported, and
  \<^verbatim>\<open>load\<close> emits \<^verbatim>\<open>loaderror\<close> once, with the reason "No audio support.", not with the
  no-codec reason.
\<close>

theorem load_without_supported_source_counterexample:
  "unsupported (g_codecs (h_howler noAudioExample)) (h_format noAudioExample) 0 (h_src noAudioExample)
   \<and> (case load (howlMethods (\<lambda>t. ok) 2) noAudioExample of
        Inr (u, h') \<Rightarrow> h_emitted h' = [(''loaderror'', None, ''No audio support.'')]
                        \<and> noCodecEvent \<notin> set (h_emitted h')
      | Inl e \<Rightarrow> False)"
  by code_simp

subsection \<open>Playing from a position at or beyond the end of the sprite\<close>

lemma ok_eq [simp]: "(ok h = ok h') = (h = h')" "ok h \<noteq> Inl e" "Inl e \<noteq> ok h"
  by (simp_all add: ok_def)

lemma quiet_refl [simp]: "quiet h h"
  by (simp add: quiet_def)
















subsection \<open>The flags of a sound\<close>

text \<open>
  C7 fails on the code.  \<^verbatim>\<open>play(1)\<close> finds the sound with id 2, whose node is not ready:
  the call clears \<^verbatim>\<open>_ended\<close>, takes the play lock and waits for the node.  \<^verbatim>\<open>play(2)\<close>
  finds the sound with id 3 and starts it; when the promise of its node is fulfilled the
  lock is released, although the first play still waits.  \<^verbatim>\<open>stop(2)\<close> is therefore not
  queued: it sets \<^verbatim>\<open>_paused\<close> and \<^verbatim>\<open>_ended\<close> on the sound with id 2.  Then the node
  becomes ready, the waiting play commits, and \<^verbatim>\<open>setParams\<close> clears \<^verbatim>\<open>_paused\<close> only: the
  sound with id 2 is ended and not paused, and \<^verbatim>\<open>playing\<close> answers true for it (it stands
  at index 1 of the array, which is what \<^verbatim>\<open>playing(1)\<close> reads).
\<close>

theorem stop_then_late_play_commit:
  "(case play (howlMethods (\<lambda>t. ok) 4) (IdArg 1) False raceExample of
      Inr (i1, h1) \<Rightarrow>
        i1 = Some 2 \<and> h_playLock h1 \<and> h_pending h1 = [OnCanPlay (racePlay 1)]
        \<and> (case play (howlMethods (\<lambda>t. ok) 4) (IdArg 2) False h1 of
              Inr (i2, h2) \<Rightarrow>
                i2 = Some 3 \<and> h_pending h2 = [OnCanPlay (racePlay 1), OnPromise (racePlay 2)]
                \<and> (case fire (howlMethods (\<lambda>t. ok) 4) (OnPromise (racePlay 2)) True h2 of
                      Inr (u3, h3) \<Rightarrow>
                        \<not> h_playLock h3
                        \<and> (case stop (howlMethods (\<lambda>t. ok) 4) (Some 2) False h3 of
                              Inr (u4, h4) \<Rightarrow>
                                s_paused (h_heap h4 1) \<and> s_ended (h_heap h4 1)
                                \<and> h_pending h4 = [OnCanPlay (racePlay 1)]
                                \<and> (case fire (howlMethods (\<lambda>t. ok) 4) (OnCanPlay (racePlay 1)) True h4 of
                                      Inr (u5, h5) \<Rightarrow>
                                        h_sounds h5 = [0, 1, 2] \<and> s_id (h_heap h5 1) = 2
                                        \<and> s_ended (h_heap h5 1) \<and> \<not> s_paused (h_heap h5 1)
                                        \<and> playing h5 1
                                    | Inl e \<Rightarrow> False)
                            | Inl e \<Rightarrow> False)
                    | Inl e \<Rightarrow> False)
            | Inl e \<Rightarrow> False)
    | Inl e \<Rightarrow> False)"
  by code_simp

text \<open>
  The first step of the trace, taken from it.
\<close>

theorem stop_then_late_play_commit_witness:
  "(case play (howlMethods (\<lambda>t. ok) 4) (IdArg 1) False raceExample of
      Inr (i1, h1) \<Rightarrow> i1 = Some 2 \<and> h_playLock h1 \<and> h_pending h1 = [OnCanPlay (racePlay 1)]
    | Inl e \<Rightarrow> False)"
proof (cases "play (howlMethods (\<lambda>t. ok) 4) (IdArg 1) False raceExample")
  case (Inl e)
  then show ?thesis using stop_then_late_play_commit by simp
next
  case (Inr p)
  obtain i1 h1 where p: "p = (i1, h1)" by (cases p)
  have "i1 = Some 2 \<and> h_playLock h1 \<and> h_pending h1 = [OnCanPlay (racePlay 1)]"
    using stop_then_late_play_commit unfolding Inr p by simp
  then show ?thesis unfolding Inr p by simp
qed

end
